theory Spec2Isabelle
  imports Complex_Main
begin

section \<open>JavaScript numbers\<close>

text \<open>
  The costs and totals of \<^verbatim>\<open>src/code.jsx\<close> are JavaScript numbers, that is IEEE 754
  binary64 values. A finite value is kept as the rational it denotes (\<open>Finite 0\<close> is
  \<open>+0\<close>); the other constructors are the values that are no rational. Every operation
  computes the exact rational result and rounds it to the nearest binary64 value, ties to
  even, as ECMAScript prescribes (\<open>Number::add\<close>, \<open>Number::multiply\<close>,
  \<open>Number::divide\<close>).
\<close>

datatype number = NaN | PosInfinity | NegInfinity | NegZero | Finite rat

definition pow2 :: "int \<Rightarrow> rat" where
  "pow2 e = (if 0 \<le> e then 2 ^ nat e else 1 / 2 ^ nat (- e))"

text \<open>The number of binary digits of a positive integer.\<close>

function bitlen :: "int \<Rightarrow> int" where
  "bitlen n = (if n \<le> 0 then 0 else 1 + bitlen (n div 2))"
  by pat_completeness auto
termination
  by (relation "measure nat") auto

declare bitlen.simps [simp del]

text \<open>\<open>ilog2 a\<close> is the integer \<open>e\<close> with \<open>2^e \<le> a < 2^(e+1)\<close>, for \<open>a > 0\<close>.\<close>

definition ilog2 :: "rat \<Rightarrow> int" where
  "ilog2 a =
     (let (p, q) = quotient_of a;
          d = bitlen p - bitlen q
      in if pow2 d \<le> a then d else d - 1)"

definition round_half_even :: "rat \<Rightarrow> int" where
  "round_half_even m =
     (let f = \<lfloor>m\<rfloor>; r = m - of_int f
      in if r < 1 / 2 then f
         else if 1 / 2 < r then f + 1
         else if even f then f else f + 1)"

text \<open>
  Rounding of an exact result to binary64: 53 significant bits, least exponent \<open>-1022\<close>
  (below it the spacing stays \<open>2^-1074\<close>, the subnormal range), a zero that keeps the
  sign of the exact result, and overflow to an infinity when the rounded value reaches
  \<open>2^1024\<close>, that is when its exponent exceeds \<open>1023\<close>.
\<close>

definition roundD :: "rat \<Rightarrow> number" where
  "roundD q =
     (if q = 0 then Finite 0
      else
        let a = \<bar>q\<bar>;
            e = max (ilog2 a) (- 1022);
            ulp = pow2 (e - 52);
            n = round_half_even (a / ulp);
            r = of_int n * ulp
        in if n = 0 then (if q < 0 then NegZero else Finite 0)
           else if 1023 < ilog2 r then (if q < 0 then NegInfinity else PosInfinity)
           else Finite (if q < 0 then - r else r))"

fun is_inf :: "number \<Rightarrow> bool" where
  "is_inf PosInfinity = True"
| "is_inf NegInfinity = True"
| "is_inf _ = False"

fun is_zero :: "number \<Rightarrow> bool" where
  "is_zero NegZero = True"
| "is_zero (Finite q) = (q = 0)"
| "is_zero _ = False"

fun negative :: "number \<Rightarrow> bool" where
  "negative NegInfinity = True"
| "negative NegZero = True"
| "negative (Finite q) = (q < 0)"
| "negative _ = False"

fun val :: "number \<Rightarrow> rat" where
  "val (Finite q) = q"
| "val _ = 0"

definition signed_inf :: "bool \<Rightarrow> number" where
  "signed_inf neg = (if neg then NegInfinity else PosInfinity)"

definition signed_zero :: "bool \<Rightarrow> number" where
  "signed_zero neg = (if neg then NegZero else Finite 0)"

text \<open>\<^verbatim>\<open>a + b\<close> on two numbers.\<close>

fun num_add :: "number \<Rightarrow> number \<Rightarrow> number" where
  "num_add NaN _ = NaN"
| "num_add _ NaN = NaN"
| "num_add PosInfinity NegInfinity = NaN"
| "num_add NegInfinity PosInfinity = NaN"
| "num_add PosInfinity _ = PosInfinity"
| "num_add _ PosInfinity = PosInfinity"
| "num_add NegInfinity _ = NegInfinity"
| "num_add _ NegInfinity = NegInfinity"
| "num_add NegZero NegZero = NegZero"
| "num_add NegZero (Finite y) = Finite y"
| "num_add (Finite x) NegZero = Finite x"
| "num_add (Finite x) (Finite y) = roundD (x + y)"

text \<open>\<^verbatim>\<open>a * b\<close> on two numbers.\<close>

definition num_mul :: "number \<Rightarrow> number \<Rightarrow> number" where
  "num_mul a b =
     (if a = NaN \<or> b = NaN then NaN
      else if is_inf a \<or> is_inf b then
        (if is_zero a \<or> is_zero b then NaN else signed_inf (negative a \<noteq> negative b))
      else if is_zero a \<or> is_zero b then signed_zero (negative a \<noteq> negative b)
      else roundD (val a * val b))"

text \<open>\<^verbatim>\<open>a / b\<close> on two numbers.\<close>

definition num_div :: "number \<Rightarrow> number \<Rightarrow> number" where
  "num_div a b =
     (if a = NaN \<or> b = NaN then NaN
      else if is_inf a then
        (if is_inf b then NaN else signed_inf (negative a \<noteq> negative b))
      else if is_inf b then signed_zero (negative a \<noteq> negative b)
      else if is_zero a then
        (if is_zero b then NaN else signed_zero (negative a \<noteq> negative b))
      else if is_zero b then signed_inf (negative a \<noteq> negative b)
      else roundD (val a / val b))"

text \<open>Truthiness of a number: \<open>+0\<close>, \<open>-0\<close> and \<open>NaN\<close> are falsy.\<close>

fun truthy_number :: "number \<Rightarrow> bool" where
  "truthy_number NaN = False"
| "truthy_number NegZero = False"
| "truthy_number (Finite q) = (q \<noteq> 0)"
| "truthy_number _ = True"

subsection \<open>\<^verbatim>\<open>Number.prototype.toFixed\<close>\<close>

definition digit_char :: "int \<Rightarrow> char" where
  "digit_char d = ''0123456789'' ! nat (d mod 10)"

text \<open>The decimal digits of a natural number, given as an integer.\<close>

function digits :: "int \<Rightarrow> string" where
  "digits n = (if n < 10 then [digit_char n] else digits (n div 10) @ [digit_char n])"
  by pat_completeness auto
termination
  by (relation "measure nat") auto

declare digits.simps [simp del]

definition pow10 :: "int \<Rightarrow> rat" where
  "pow10 e = (if 0 \<le> e then 10 ^ nat e else 1 / 10 ^ nat (- e))"

text \<open>
  The string of a number \<open>x\<close> from \<open>10^21\<close> on (\<open>Number::toString\<close>): the shortest
  sequence of digits \<open>s\<close>, of some length \<open>k\<close>, such that \<open>s * 10^(n-k)\<close> rounds to \<open>x\<close>;
  of two such values the one nearer to \<open>x\<close>, of two equally near ones the even one. It is
  printed with the point after the first digit and the exponent \<open>n - 1\<close>. Seventeen digits
  determine a binary64 value, so the search ends at \<open>k = 17\<close> at the latest. The only
  values of \<open>s\<close> to try are the two integers around \<open>x / 10^(n-k)\<close>; when the upper one is
  \<open>10^k\<close>, the digits are those of 1 with the exponent one higher.
\<close>

definition shortest_candidates :: "rat \<Rightarrow> int \<Rightarrow> int \<Rightarrow> int list" where
  "shortest_candidates x n k =
     (let scale = pow10 (n - k); s0 = \<lfloor>x / scale\<rfloor>
      in filter (\<lambda>s. roundD (of_int s * scale) = Finite x) [s0, s0 + 1])"

definition nearest_candidate :: "rat \<Rightarrow> rat \<Rightarrow> int list \<Rightarrow> int option" where
  "nearest_candidate x scale cands =
     (case cands of
        [] \<Rightarrow> None
      | [s] \<Rightarrow> Some s
      | s # t # _ \<Rightarrow>
          (let ds = \<bar>of_int s * scale - x\<bar>; dt = \<bar>of_int t * scale - x\<bar>
           in Some (if ds < dt then s else if dt < ds then t else if even s then s else t)))"

definition exponential_string :: "rat \<Rightarrow> string" where
  "exponential_string x =
     (let n = int (length (digits \<lfloor>x\<rfloor>));
          k = (case List.find (\<lambda>k. shortest_candidates x n k \<noteq> []) [1..17] of
                 Some k \<Rightarrow> k
               | None \<Rightarrow> 17);
          s = (case nearest_candidate x (pow10 (n - k)) (shortest_candidates x n k) of
                 Some s \<Rightarrow> s
               | None \<Rightarrow> \<lfloor>x / pow10 (n - k)\<rfloor>);
          (s', n') = (if s = 10 ^ nat k then (1, n + 1) else (s, n))
      in (case digits s' of
            [] \<Rightarrow> []
          | d # rest \<Rightarrow> (if rest = [] then [d] else d # ''.'' @ rest) @ ''e+'' @ digits (n' - 1)))"

text \<open>
  \<^verbatim>\<open>x.toFixed(f)\<close>: more than 100 fraction digits are a \<^verbatim>\<open>RangeError\<close>, which is
  \<open>None\<close>. A value that is not finite prints its name; otherwise the integer \<open>n\<close> nearest
  to \<open>|x| * 10^f\<close> (the larger one of two) is printed with \<open>f\<close> digits after the point,
  padded with zeros in front. From \<open>10^21\<close> on, the result is the string of the number.
\<close>

definition toFixed :: "number \<Rightarrow> nat \<Rightarrow> string option" where
  "toFixed x f =
     (if 100 < f then None
      else
        case x of
          NaN \<Rightarrow> Some ''NaN''
        | PosInfinity \<Rightarrow> Some ''Infinity''
        | NegInfinity \<Rightarrow> Some ''-Infinity''
        | _ \<Rightarrow>
          (let q = val x;
               s = (if q < 0 then ''-'' else '''');
               a = \<bar>q\<bar>
           in if 10 ^ 21 \<le> a then Some (s @ exponential_string a)
              else
                let n = \<lfloor>a * 10 ^ f + 1 / 2\<rfloor>;
                    m = digits n;
                    m' = (if f = 0 then m
                          else
                            let z = replicate (f + 1 - length m) (CHR ''0'');
                                m0 = z @ m;
                                k = length m0
                            in take (k - f) m0 @ ''.'' @ drop (k - f) m0)
                in Some (s @ m')))"

subsection \<open>\<^verbatim>\<open>parseFloat\<close>\<close>

definition is_digit :: "char \<Rightarrow> bool" where
  "is_digit c = (c \<in> set ''0123456789'')"

text \<open>
  A character is a code unit below 256. The white space among these: tab, line feed,
  vertical tab, form feed, carriage return, space and the no-break space.
\<close>

definition is_space :: "char \<Rightarrow> bool" where
  "is_space c =
     (c \<in> {CHR 0x09, CHR 0x0A, CHR 0x0B, CHR 0x0C, CHR 0x0D, CHR '' '', CHR 0xA0})"

definition digit_value :: "char \<Rightarrow> int" where
  "digit_value c = of_char c - 48"

definition dec_value :: "string \<Rightarrow> int" where
  "dec_value ds = foldl (\<lambda>acc c. 10 * acc + digit_value c) 0 ds"

definition strip_sign :: "string \<Rightarrow> bool \<times> string" where
  "strip_sign t =
     (case t of
        [] \<Rightarrow> (False, [])
      | c # r \<Rightarrow> if c = CHR ''-'' then (True, r)
                 else if c = CHR ''+'' then (False, r)
                 else (False, t))"

text \<open>
  \<^verbatim>\<open>parseFloat\<close> on a string: leading white space is skipped, then the longest prefix
  that is a decimal literal (sign, \<^verbatim>\<open>Infinity\<close> or digits with an optional fraction and
  an optional exponent) is read and rounded; without such a prefix the result is \<open>NaN\<close>.
\<close>

definition parseFloat_string :: "string \<Rightarrow> number" where
  "parseFloat_string s =
     (let (neg, u) = strip_sign (dropWhile is_space s)
      in if take 8 u = ''Infinity'' then signed_inf neg
         else
           let ip = takeWhile is_digit u;
               r1 = dropWhile is_digit u;
               (fp, r2) = (case r1 of
                             [] \<Rightarrow> ([], [])
                           | c # r \<Rightarrow> if c = CHR ''.''
                                      then (takeWhile is_digit r, dropWhile is_digit r)
                                      else ([], r1))
           in if ip = [] \<and> fp = [] then NaN
              else
                let ex = (case r2 of
                            [] \<Rightarrow> 0
                          | c # r \<Rightarrow>
                              if c = CHR ''e'' \<or> c = CHR ''E'' then
                                (let (eneg, r3) = strip_sign r;
                                     ed = takeWhile is_digit r3
                                 in if ed = [] then 0
                                    else if eneg then - dec_value ed else dec_value ed)
                              else 0);
                    q = of_int (dec_value (ip @ fp)) * pow10 (ex - int (length fp))
                in if q = 0 then signed_zero neg
                   else roundD (if neg then - q else q))"

text \<open>
  The cost field of the form holds the text of the input element, or, after
  \<^verbatim>\<open>startEdit\<close>, the number of the record (\<^verbatim>\<open>setFormCost(sub.cost)\<close>).
\<close>

datatype form_value = Text string | Numeric number

fun truthy_value :: "form_value \<Rightarrow> bool" where
  "truthy_value (Text s) = (s \<noteq> [])"
| "truthy_value (Numeric n) = truthy_number n"

text \<open>
  \<^verbatim>\<open>parseFloat\<close> converts its argument to a string first. The string of a number reads
  back as the same number, but for \<open>-0\<close>, whose string is \<^verbatim>\<open>"0"\<close>.
\<close>

fun parseFloat :: "form_value \<Rightarrow> number" where
  "parseFloat (Text s) = parseFloat_string s"
| "parseFloat (Numeric NegZero) = Finite 0"
| "parseFloat (Numeric n) = n"

section \<open>Subscriptions and the aggregation of their costs\<close>

text \<open>
  A stored document has the four fields that \<^verbatim>\<open>handleSubmit\<close> writes, with the types
  it writes them in: the cost is a number (the result of \<^verbatim>\<open>parseFloat\<close>), the billing
  cycle is a string, the creation time is a point in time, counted in milliseconds. A subscription of the list is a document together with
  the identifier of the document (\<^verbatim>\<open>{ id: doc.id, ...doc.data() }\<close>).
\<close>

record document =
  name :: string
  cost :: number
  cycle :: string
  createdAt :: nat

record subscription = document +
  sub_id :: string

text \<open>
  The body of the \<^verbatim>\<open>forEach\<close> of the snapshot callback, on the pair of the running
  totals: both costs start as \<^verbatim>\<open>sub.cost\<close>; a yearly cycle replaces the monthly cost by
  a twelfth, else a monthly cycle replaces the yearly cost by twelve times the cost.
\<close>

definition add_costs :: "number \<times> number \<Rightarrow> subscription \<Rightarrow> number \<times> number" where
  "add_costs totals sub =
     (let (monthlyCost, yearlyCost) =
            (if cycle sub = ''yearly'' then (num_div (cost sub) (Finite 12), cost sub)
             else if cycle sub = ''monthly'' then (cost sub, num_mul (cost sub) (Finite 12))
             else (cost sub, cost sub))
      in (num_add (fst totals) monthlyCost, num_add (snd totals) yearlyCost))"

text \<open>The \<^verbatim>\<open>forEach\<close> itself, from the two totals at zero.\<close>

definition calculate_totals :: "subscription list \<Rightarrow> number \<times> number" where
  "calculate_totals subscriptionsList = foldl add_costs (Finite 0, Finite 0) subscriptionsList"





section \<open>JSON values of the report response\<close>

datatype json =
    JNull
  | JBool bool
  | JNumber number
  | JString string
  | JArray "json list"
  | JObject "(string \<times> json) list"

datatype key = Prop string | Idx nat

text \<open>
  Reading a property; \<open>None\<close> is \<^verbatim>\<open>undefined\<close>. Of two members of an object with the
  same key, \<^verbatim>\<open>JSON.parse\<close> keeps the later one. An index into an object is the
  property named by its decimal digits; an index into a string is the character there.
  Arrays and strings have a \<^verbatim>\<open>length\<close>; the other names read here (\<^verbatim>\<open>candidates\<close>,
  \<^verbatim>\<open>content\<close>, \<^verbatim>\<open>parts\<close>, \<^verbatim>\<open>text\<close>) are no properties of theirs, nor of a number
  or a truth value. \<^verbatim>\<open>null\<close> has no properties: \<^verbatim>\<open>?.\<close> gives \<^verbatim>\<open>undefined\<close> on it.
\<close>

fun get_property :: "json \<Rightarrow> key \<Rightarrow> json option" where
  "get_property (JObject kvs) (Prop k) = map_of (rev kvs) k"
| "get_property (JObject kvs) (Idx i) = map_of (rev kvs) (digits (int i))"
| "get_property (JArray xs) (Idx i) = (if i < length xs then Some (xs ! i) else None)"
| "get_property (JArray xs) (Prop k) =
     (if k = ''length'' then Some (JNumber (Finite (of_nat (length xs)))) else None)"
| "get_property (JString s) (Idx i) = (if i < length s then Some (JString [s ! i]) else None)"
| "get_property (JString s) (Prop k) =
     (if k = ''length'' then Some (JNumber (Finite (of_nat (length s)))) else None)"
| "get_property _ _ = None"

text \<open>\<^verbatim>\<open>v?.k\<close> on a value that may be \<^verbatim>\<open>undefined\<close>.\<close>

definition opt_chain :: "json option \<Rightarrow> key \<Rightarrow> json option" where
  "opt_chain v k = (case v of None \<Rightarrow> None | Some x \<Rightarrow> get_property x k)"

text \<open>\<^verbatim>\<open>result?.candidates?.[0]?.content?.parts?.[0]?.text\<close>\<close>

definition response_text :: "json \<Rightarrow> json option" where
  "response_text result =
     opt_chain (opt_chain (opt_chain (opt_chain (opt_chain (opt_chain (Some result)
       (Prop ''candidates'')) (Idx 0)) (Prop ''content'')) (Prop ''parts'')) (Idx 0))
       (Prop ''text'')"

fun truthy_json :: "json \<Rightarrow> bool" where
  "truthy_json JNull = False"
| "truthy_json (JBool b) = b"
| "truthy_json (JNumber n) = truthy_number n"
| "truthy_json (JString s) = (s \<noteq> [])"
| "truthy_json (JArray _) = True"
| "truthy_json (JObject _) = True"

section \<open>The state of the component and the document store\<close>

text \<open>The \<^verbatim>\<open>useState\<close> cells of \<^verbatim>\<open>App\<close>; \<open>None\<close> is \<^verbatim>\<open>null\<close>.\<close>

record app_state =
  userId :: "string option"
  loading :: bool
  error :: string
  message :: string
  isAuthReady :: bool
  subscriptions :: "subscription list"
  totalMonthlyCost :: number
  totalYearlyCost :: number
  formName :: string
  formCost :: form_value
  formCycle :: string
  editingId :: "string option"
  geminiResponse :: "json option"

definition initial_state :: app_state where
  "initial_state =
     \<lparr>userId = None, loading = False, error = '''', message = '''', isAuthReady = False,
      subscriptions = [], totalMonthlyCost = Finite 0, totalYearlyCost = Finite 0,
      formName = '''', formCost = Text '''', formCycle = ''monthly'', editingId = None,
      geminiResponse = None\<rparr>"

text \<open>
  The collection \<^verbatim>\<open>artifacts/{appId}/users/{userId}/subscriptions\<close> of the signed-in
  user maps document identifiers to documents. The world is the component's state
  together with this collection.
\<close>

record world =
  ui :: app_state
  store :: "string \<rightharpoonup> document"

text \<open>
  An awaited write either resolves or rejects; which one is the backend's answer (a
  missing \<^verbatim>\<open>db\<close> handle, the network, the security rules). \<^verbatim>\<open>updateDoc\<close> sets the
  fields of the given object in an existing document and rejects when there is none;
  \<^verbatim>\<open>addDoc\<close> stores the object under an identifier chosen by the backend;
  \<^verbatim>\<open>deleteDoc\<close> removes the document. \<open>None\<close> is the rejected promise.
\<close>

datatype write_outcome = Resolves | Rejects

definition updateDoc ::
  "(string \<rightharpoonup> document) \<Rightarrow> string \<Rightarrow> document \<Rightarrow> write_outcome \<Rightarrow> (string \<rightharpoonup> document) option" where
  "updateDoc db i d outcome =
     (case outcome of
        Rejects \<Rightarrow> None
      | Resolves \<Rightarrow>
          (case db i of
             None \<Rightarrow> None
           | Some old \<Rightarrow>
               Some (db(i \<mapsto> old\<lparr>name := name d, cost := cost d, cycle := cycle d,
                                   createdAt := createdAt d\<rparr>))))"

definition addDoc ::
  "(string \<rightharpoonup> document) \<Rightarrow> string \<Rightarrow> document \<Rightarrow> write_outcome \<Rightarrow> (string \<rightharpoonup> document) option" where
  "addDoc db newId d outcome =
     (case outcome of Rejects \<Rightarrow> None | Resolves \<Rightarrow> Some (db(newId \<mapsto> d)))"

definition deleteDoc ::
  "(string \<rightharpoonup> document) \<Rightarrow> string \<Rightarrow> write_outcome \<Rightarrow> (string \<rightharpoonup> document) option" where
  "deleteDoc db i outcome =
     (case outcome of Rejects \<Rightarrow> None | Resolves \<Rightarrow> Some (db(i := None)))"

text \<open>Truthiness of \<^verbatim>\<open>editingId\<close>: \<^verbatim>\<open>null\<close> and the empty string are falsy.\<close>

fun truthy_id :: "string option \<Rightarrow> bool" where
  "truthy_id None = False"
| "truthy_id (Some i) = (i \<noteq> [])"

section \<open>The handlers\<close>

text \<open>
  The callback of \<^verbatim>\<open>onSnapshot\<close>: the documents of the snapshot become the list of
  subscriptions and the two totals are computed from it.
\<close>

definition subscriptionsList :: "(string \<times> document) list \<Rightarrow> subscription list" where
  "subscriptionsList docs =
     map (\<lambda>(i, d). \<lparr>name = name d, cost = cost d, cycle = cycle d, createdAt = createdAt d,
                     sub_id = i\<rparr>) docs"


text \<open>
  \<^verbatim>\<open>handleSubmit\<close>, with the time of \<^verbatim>\<open>new Date()\<close>, the identifier the backend
  would give a new document and the outcome of the awaited write. The form is reset in
  the \<^verbatim>\<open>try\<close> block after the write; the \<^verbatim>\<open>catch\<close> block only sets the error.
\<close>

definition handleSubmit :: "world \<Rightarrow> nat \<Rightarrow> string \<Rightarrow> write_outcome \<Rightarrow> world" where
  "handleSubmit w now newId outcome =
     (let st = ui w
      in if formName st = [] \<or> \<not> truthy_value (formCost st) then
           w\<lparr>ui := st\<lparr>error := ''Please fill in both the name and cost.''\<rparr>\<rparr>
         else
           let st1 = st\<lparr>loading := True, error := ''''\<rparr>;
               newSubscription = \<lparr>name = formName st, cost = parseFloat (formCost st),
                                  cycle = formCycle st, createdAt = now\<rparr>;
               written = (case editingId st of
                            None \<Rightarrow> addDoc (store w) newId newSubscription outcome
                          | Some i \<Rightarrow>
                              if i \<noteq> [] then updateDoc (store w) i newSubscription outcome
                              else addDoc (store w) newId newSubscription outcome)
           in case written of
                Some db' \<Rightarrow>
                  w\<lparr>ui := st1\<lparr>message := (if truthy_id (editingId st)
                                            then ''Subscription updated successfully!''
                                            else ''Subscription added successfully!''),
                                formName := '''', formCost := Text '''',
                                formCycle := ''monthly'', editingId := None,
                                loading := False\<rparr>,
                    store := db'\<rparr>
              | None \<Rightarrow>
                  w\<lparr>ui := st1\<lparr>error := ''Failed to save subscription. Please try again.'',
                                loading := False\<rparr>\<rparr>)"

definition startEdit :: "world \<Rightarrow> subscription \<Rightarrow> world" where
  "startEdit w sub =
     w\<lparr>ui := (ui w)\<lparr>formName := name sub, formCost := Numeric (cost sub),
                      formCycle := cycle sub, editingId := Some (sub_id sub)\<rparr>\<rparr>"

text \<open>The \<^verbatim>\<open>onClick\<close> of the Cancel button, which is shown while \<^verbatim>\<open>editingId\<close> is truthy.\<close>

definition cancelEdit :: "world \<Rightarrow> world" where
  "cancelEdit w =
     w\<lparr>ui := (ui w)\<lparr>editingId := None, formName := '''', formCost := Text '''',
                      formCycle := ''monthly''\<rparr>\<rparr>"

definition handleDelete :: "world \<Rightarrow> string \<Rightarrow> write_outcome \<Rightarrow> world" where
  "handleDelete w i outcome =
     (let st1 = (ui w)\<lparr>loading := True, error := ''''\<rparr>
      in case deleteDoc (store w) i outcome of
           Some db' \<Rightarrow>
             w\<lparr>ui := st1\<lparr>message := ''Subscription deleted successfully!'', loading := False\<rparr>,
               store := db'\<rparr>
         | None \<Rightarrow>
             w\<lparr>ui := st1\<lparr>error := ''Failed to delete subscription. Please try again.'',
                           loading := False\<rparr>\<rparr>)"

text \<open>
  \<^verbatim>\<open>generateGeminiReport\<close>. The answer to \<^verbatim>\<open>fetch\<close> is a rejected promise or a
  response with a status and a body; \<^verbatim>\<open>response.ok\<close> holds for the statuses 200 to
  299, and the body is \<open>None\<close> when \<^verbatim>\<open>response.json()\<close> rejects. The text of the
  prompt has no part in what the handler does with the answer and is left out.
\<close>

datatype fetch_result = NetworkError | Response nat "json option"

definition response_ok :: "nat \<Rightarrow> bool" where
  "response_ok status = (200 \<le> status \<and> status \<le> 299)"

text \<open>The four setters before the request.\<close>

definition report_start :: "world \<Rightarrow> world" where
  "report_start w =
     w\<lparr>ui := (ui w)\<lparr>loading := True, error := '''', message := '''',
                      geminiResponse := None\<rparr>\<rparr>"

definition report_failed :: "world \<Rightarrow> world" where
  "report_failed w =
     w\<lparr>ui := (ui w)\<lparr>error := ''Failed to generate report. Please try again later.'',
                      loading := False\<rparr>\<rparr>"

text \<open>The \<^verbatim>\<open>try\<close>, \<^verbatim>\<open>catch\<close> and \<^verbatim>\<open>finally\<close> blocks, on the answer.\<close>

definition report_finish :: "world \<Rightarrow> fetch_result \<Rightarrow> world" where
  "report_finish w answer =
     (case answer of
        NetworkError \<Rightarrow> report_failed w
      | Response status body \<Rightarrow>
          if \<not> response_ok status then report_failed w
          else
            (case body of
               None \<Rightarrow> report_failed w
             | Some result \<Rightarrow>
                 (case response_text result of
                    None \<Rightarrow> report_failed w
                  | Some text \<Rightarrow>
                      if truthy_json text then
                        w\<lparr>ui := (ui w)\<lparr>geminiResponse := Some text, loading := False\<rparr>\<rparr>
                      else report_failed w)))"

definition generateGeminiReport :: "world \<Rightarrow> fetch_result \<Rightarrow> world" where
  "generateGeminiReport w answer = report_finish (report_start w) answer"

text \<open>The form as it is at the start: empty name, empty cost, monthly cycle, no edit target.\<close>

definition form_is_default :: "app_state \<Rightarrow> bool" where
  "form_is_default st =
     (formName st = [] \<and> formCost st = Text [] \<and> formCycle st = ''monthly'' \<and>
      editingId st = None)"

section \<open>Example inputs\<close>

text \<open>The two subscriptions of the scenario of the specification.\<close>

definition netflix :: subscription where
  "netflix = \<lparr>name = ''Netflix'', cost = Finite 500, cycle = ''monthly'', createdAt = 1000,
              sub_id = ''s1''\<rparr>"

definition prime :: subscription where
  "prime = \<lparr>name = ''Prime'', cost = Finite 1499, cycle = ''yearly'', createdAt = 1500,
            sub_id = ''s2''\<rparr>"

text \<open>A subscription with a cycle that the form does not offer.\<close>

definition gym :: subscription where
  "gym = \<lparr>name = ''Gym'', cost = Finite 300, cycle = ''weekly'', createdAt = 1700,
          sub_id = ''s3''\<rparr>"

definition netflix_doc :: document where
  "netflix_doc = \<lparr>name = ''Netflix'', cost = Finite 500, cycle = ''monthly'', createdAt = 1000\<rparr>"


text \<open>A world with one stored subscription and an untouched form.\<close>

definition idle_world :: world where
  "idle_world =
     \<lparr>ui = initial_state\<lparr>userId := Some ''u1'', isAuthReady := True,
                           subscriptions := [netflix],
                           totalMonthlyCost := Finite 500, totalYearlyCost := Finite 6000\<rparr>,
      store = [''s1'' \<mapsto> netflix_doc]\<rparr>"

text \<open>The form filled in for a new subscription.\<close>

definition adding_world :: world where
  "adding_world =
     idle_world\<lparr>ui := (ui idle_world)\<lparr>formName := ''Prime'', formCost := Text ''1499'',
                                        formCycle := ''yearly''\<rparr>\<rparr>"

text \<open>The form filled in while the stored subscription is edited: a new price.\<close>

definition editing_world :: world where
  "editing_world =
     idle_world\<lparr>ui := (ui idle_world)\<lparr>formName := ''Netflix'', formCost := Text ''649'',
                                        formCycle := ''monthly'', editingId := Some ''s1''\<rparr>\<rparr>"

text \<open>A form with a name and no cost.\<close>

definition incomplete_world :: world where
  "incomplete_world = idle_world\<lparr>ui := (ui idle_world)\<lparr>formName := ''Prime''\<rparr>\<rparr>"

text \<open>A world that shows an earlier report and a message.\<close>

definition reported_world :: world where
  "reported_world =
     idle_world\<lparr>ui := (ui idle_world)\<lparr>message := ''Subscription added successfully!'',
                                        geminiResponse := Some (JString ''You spend little.'')\<rparr>\<rparr>"

text \<open>A well-formed answer of the endpoint, and one without \<^verbatim>\<open>candidates\<close>.\<close>

definition good_body :: json where
  "good_body =
     JObject [(''candidates'',
       JArray [JObject [(''content'',
         JObject [(''parts'', JArray [JObject [(''text'', JString ''Cancel one.'')]])])]])]"

definition blocked_body :: json where
  "blocked_body = JObject [(''promptFeedback'', JObject [(''blockReason'', JString ''SAFETY'')])]"

section \<open>Properties of the aggregation\<close>




text \<open>Arithmetic of the scenario, computed with the rounding of the model.\<close>

lemma add_0_500: "num_add (Finite 0) (Finite 500) = Finite 500"
  by code_simp

lemma div_1499_12:
  "num_div (Finite 1499) (Finite 12) = Finite (8790228960193195 / 70368744177664)"
  by code_simp

lemma add_500_twelfth:
  "num_add (Finite 500) (Finite (8790228960193195 / 70368744177664)) =
     Finite (5496825131128149 / 8796093022208)"
  by code_simp

lemma mul_500_12: "num_mul (Finite 500) (Finite 12) = Finite 6000"
  by code_simp

lemma add_0_6000: "num_add (Finite 0) (Finite 6000) = Finite 6000"
  by code_simp

lemma add_6000_1499: "num_add (Finite 6000) (Finite 1499) = Finite 7499"
  by code_simp




lemma toFixed_monthly: "toFixed (Finite (5496825131128149 / 8796093022208)) 2 = Some ''624.92''"
  by code_simp

lemma toFixed_yearly: "toFixed (Finite 7499) 2 = Some ''7499.00''"
  by code_simp

lemma totals_netflix_prime:
  "calculate_totals [netflix, prime] = (Finite (5496825131128149 / 8796093022208), Finite 7499)"
  by (simp add: calculate_totals_def add_costs_def netflix_def prime_def
      add_0_500 div_1499_12 add_500_twelfth mul_500_12 add_0_6000 add_6000_1499
      del: num_add.simps)

text \<open>
  C7: for the empty subscription list both totals are exactly zero.
\<close>

theorem calculate_totals_empty:
  "calculate_totals [] = (Finite 0, Finite 0)"
  by (simp add: calculate_totals_def)




text \<open>
  C9: a subscription whose cycle is neither \<^verbatim>\<open>'monthly'\<close> nor \<^verbatim>\<open>'yearly'\<close> adds its cost
  as it is to both running totals.
\<close>

theorem other_cycle_adds_raw_cost:
  assumes "cycle sub \<noteq> ''monthly''" and "cycle sub \<noteq> ''yearly''"
  shows "add_costs (m, y) sub = (num_add m (cost sub), num_add y (cost sub)) \<and>
         calculate_totals (subs @ [sub]) =
           (num_add (fst (calculate_totals subs)) (cost sub),
            num_add (snd (calculate_totals subs)) (cost sub))"
  using assms by (simp add: add_costs_def calculate_totals_def)

theorem other_cycle_adds_raw_cost_witness:
  "cycle gym \<noteq> ''monthly'' \<and> cycle gym \<noteq> ''yearly'' \<and>
   add_costs (Finite 500, Finite 6000) gym =
     (num_add (Finite 500) (Finite 300), num_add (Finite 6000) (Finite 300)) \<and>
   calculate_totals ([] @ [gym]) = (num_add (Finite 0) (Finite 300), num_add (Finite 0) (Finite 300))"
proof -
  have h1: "cycle gym \<noteq> ''monthly''" and h2: "cycle gym \<noteq> ''yearly''"
    by (simp_all add: gym_def)
  have c: "cost gym = Finite 300"
    by (simp add: gym_def)
  from other_cycle_adds_raw_cost [OF h1 h2, of "Finite 500" "Finite 6000" "[]"] h1 h2
  show ?thesis
    by (simp add: c calculate_totals_def del: num_add.simps)
qed

text \<open>
  C6: for Netflix at 500 a month and Prime at 1499 a year, the total monthly cost is
  \<^verbatim>\<open>500 + 1499/12\<close>, shown as \<^verbatim>\<open>624.92\<close> by \<^verbatim>\<open>toFixed(2)\<close>, and the total yearly cost
  is \<^verbatim>\<open>500*12 + 1499\<close>, that is 7499.
\<close>

theorem scenario_netflix_prime:
  "fst (calculate_totals [netflix, prime]) =
     num_add (Finite 500) (num_div (Finite 1499) (Finite 12)) \<and>
   toFixed (fst (calculate_totals [netflix, prime])) 2 = Some ''624.92'' \<and>
   snd (calculate_totals [netflix, prime]) =
     num_add (num_mul (Finite 500) (Finite 12)) (Finite 1499) \<and>
   snd (calculate_totals [netflix, prime]) = Finite 7499 \<and>
   toFixed (snd (calculate_totals [netflix, prime])) 2 = Some ''7499.00''"
  by (simp add: totals_netflix_prime div_1499_12 add_500_twelfth mul_500_12 add_6000_1499
      toFixed_monthly toFixed_yearly del: num_add.simps)

section \<open>Properties of the form\<close>

lemma parseFloat_649: "parseFloat (Text ''649'') = Finite 649"
  by code_simp

lemma parseFloat_1499: "parseFloat (Text ''1499'') = Finite 1499"
  by code_simp

text \<open>
  C4: when the name is empty or the cost is empty, submitting leaves the document store as
  it is and sets the validation error; nothing else of the state changes.
\<close>

theorem handleSubmit_validation:
  assumes "formName (ui w) = [] \<or> formCost (ui w) = Text []"
  shows "store (handleSubmit w now newId outcome) = store w \<and>
         error (ui (handleSubmit w now newId outcome)) =
           ''Please fill in both the name and cost.'' \<and>
         handleSubmit w now newId outcome =
           w\<lparr>ui := (ui w)\<lparr>error := ''Please fill in both the name and cost.''\<rparr>\<rparr>"
  using assms by (auto simp: handleSubmit_def)

theorem handleSubmit_validation_witness:
  "(formName (ui incomplete_world) = [] \<or> formCost (ui incomplete_world) = Text []) \<and>
   store (handleSubmit incomplete_world 2000 ''s2'' Resolves) = store incomplete_world \<and>
   error (ui (handleSubmit incomplete_world 2000 ''s2'' Resolves)) =
     ''Please fill in both the name and cost.''"
proof -
  have h: "formName (ui incomplete_world) = [] \<or> formCost (ui incomplete_world) = Text []"
    by (simp add: incomplete_world_def idle_world_def initial_state_def)
  from handleSubmit_validation [OF h, of 2000 "''s2''" Resolves] h
  show ?thesis by simp
qed

text \<open>
  C2, at a concrete input: the stored subscription was created at time 1000; it is edited
  and submitted at time 2000, the write resolves, and the stored \<^verbatim>\<open>createdAt\<close> is 2000.
\<close>

theorem handleSubmit_update_overwrites_createdAt:
  "map_option createdAt (store editing_world ''s1'') = Some 1000 \<and>
   editingId (ui editing_world) = Some ''s1'' \<and>
   map_option createdAt (store (handleSubmit editing_world 2000 ''s2'' Resolves) ''s1'') =
     Some 2000"
  by (simp add: handleSubmit_def updateDoc_def editing_world_def idle_world_def
      initial_state_def netflix_doc_def)

text \<open>
  C3 as it is stated fails when the write is rejected: the name and the cost of the form
  are not empty, the write fails, and afterwards the form still holds the name, the cost
  and the cycle that were entered.
\<close>

theorem handleSubmit_rejected_keeps_form:
  "formName (ui adding_world) \<noteq> [] \<and> formCost (ui adding_world) \<noteq> Text [] \<and>
   \<not> form_is_default (ui (handleSubmit adding_world 2000 ''s2'' Rejects)) \<and>
   formName (ui (handleSubmit adding_world 2000 ''s2'' Rejects)) = ''Prime'' \<and>
   formCost (ui (handleSubmit adding_world 2000 ''s2'' Rejects)) = Text ''1499'' \<and>
   formCycle (ui (handleSubmit adding_world 2000 ''s2'' Rejects)) = ''yearly''"
  by (simp add: handleSubmit_def addDoc_def adding_world_def idle_world_def initial_state_def
      form_is_default_def)

text \<open>
  C3, amended: let the name be non-empty and the cost be a non-empty text or a number
  other than zero and \<open>NaN\<close>. Submitting builds the candidate record with the cost parsed
  by \<^verbatim>\<open>parseFloat\<close>, and issues an update at \<^verbatim>\<open>editingId\<close> if that is set and a create
  otherwise. When the write succeeds, the updated document holds the name, the parsed cost
  and the cycle of the form (a created one is the candidate record), and the name, the
  cost, the cycle (back to \<^verbatim>\<open>monthly\<close>) and the edit target are cleared. When the write
  fails, the store, the form fields and the edit target stay as they were and an error is
  set. In every case the loading flag is off at the end.
\<close>

theorem handleSubmit_valid:
  assumes "formName (ui w) \<noteq> []" and "truthy_value (formCost (ui w))"
  shows
    "let w' = handleSubmit w now newId outcome
     in \<not> loading (ui w') \<and>
        (\<forall>i old. editingId (ui w) = Some i \<and> i \<noteq> [] \<and> outcome = Resolves \<and>
                  store w i = Some old \<longrightarrow>
           (\<exists>d. store w' = (store w)(i \<mapsto> d) \<and> name d = formName (ui w) \<and>
                 cost d = parseFloat (formCost (ui w)) \<and> cycle d = formCycle (ui w)) \<and>
           form_is_default (ui w') \<and> error (ui w') = []) \<and>
        (\<not> truthy_id (editingId (ui w)) \<and> outcome = Resolves \<longrightarrow>
           store w' = (store w)(newId \<mapsto> \<lparr>name = formName (ui w),
                                            cost = parseFloat (formCost (ui w)),
                                            cycle = formCycle (ui w), createdAt = now\<rparr>) \<and>
           form_is_default (ui w') \<and> error (ui w') = []) \<and>
        (outcome = Rejects \<or>
         (\<exists>i. editingId (ui w) = Some i \<and> i \<noteq> [] \<and> store w i = None) \<longrightarrow>
           store w' = store w \<and> formName (ui w') = formName (ui w) \<and>
           formCost (ui w') = formCost (ui w) \<and> formCycle (ui w') = formCycle (ui w) \<and>
           editingId (ui w') = editingId (ui w) \<and>
           error (ui w') = ''Failed to save subscription. Please try again.'')"
proof -
  let ?w' = "handleSubmit w now newId outcome"
  let ?cand = "\<lparr>name = formName (ui w), cost = parseFloat (formCost (ui w)),
                 cycle = formCycle (ui w), createdAt = now\<rparr>"
  have idle: "\<not> loading (ui ?w')"
    using assms by (simp add: handleSubmit_def Let_def split: option.splits)
  have upd: "(\<exists>d. store ?w' = (store w)(i \<mapsto> d) \<and> name d = formName (ui w) \<and>
                 cost d = parseFloat (formCost (ui w)) \<and> cycle d = formCycle (ui w)) \<and>
             form_is_default (ui ?w') \<and> error (ui ?w') = []"
    if "editingId (ui w) = Some i" "i \<noteq> []" "outcome = Resolves" "store w i = Some old"
    for i old
  proof -
    let ?d = "old\<lparr>name := formName (ui w), cost := parseFloat (formCost (ui w)),
                   cycle := formCycle (ui w), createdAt := now\<rparr>"
    have w': "?w' = w\<lparr>ui := (ui w)\<lparr>loading := False, error := [],
                                     message := ''Subscription updated successfully!'',
                                     formName := [], formCost := Text [],
                                     formCycle := ''monthly'', editingId := None\<rparr>,
                      store := (store w)(i \<mapsto> ?d)\<rparr>"
      using assms that by (simp add: handleSubmit_def updateDoc_def Let_def)
    have "store ?w' = (store w)(i \<mapsto> ?d)"
      by (simp add: w')
    moreover have "name ?d = formName (ui w)" "cost ?d = parseFloat (formCost (ui w))"
      "cycle ?d = formCycle (ui w)"
      by simp_all
    ultimately have "\<exists>d. store ?w' = (store w)(i \<mapsto> d) \<and> name d = formName (ui w) \<and>
        cost d = parseFloat (formCost (ui w)) \<and> cycle d = formCycle (ui w)"
      by blast
    then show ?thesis
      by (simp add: w' form_is_default_def)
  qed
  have new: "store ?w' = (store w)(newId \<mapsto> ?cand) \<and>
             form_is_default (ui ?w') \<and> error (ui ?w') = []"
    if "\<not> truthy_id (editingId (ui w))" "outcome = Resolves"
    using assms that
    by (cases "editingId (ui w)")
      (simp_all add: handleSubmit_def addDoc_def form_is_default_def Let_def)
  have failed: "store ?w' = store w \<and> formName (ui ?w') = formName (ui w) \<and>
      formCost (ui ?w') = formCost (ui w) \<and> formCycle (ui ?w') = formCycle (ui w) \<and>
      editingId (ui ?w') = editingId (ui w) \<and>
      error (ui ?w') = ''Failed to save subscription. Please try again.''"
    if "outcome = Rejects \<or> (\<exists>i. editingId (ui w) = Some i \<and> i \<noteq> [] \<and> store w i = None)"
    using assms that
    by (cases outcome; cases "editingId (ui w)")
      (auto simp: handleSubmit_def addDoc_def updateDoc_def Let_def)
  show ?thesis
    unfolding Let_def using idle upd new failed by blast
qed

theorem handleSubmit_valid_witness:
  "formName (ui editing_world) \<noteq> [] \<and> truthy_value (formCost (ui editing_world)) \<and>
   (\<exists>d. store (handleSubmit editing_world 2000 ''s2'' Resolves) =
           (store editing_world)(''s1'' \<mapsto> d) \<and>
         name d = ''Netflix'' \<and> cost d = Finite 649 \<and> cycle d = ''monthly'') \<and>
   form_is_default (ui (handleSubmit editing_world 2000 ''s2'' Resolves)) \<and>
   store (handleSubmit adding_world 2000 ''s2'' Resolves) =
     (store adding_world)(''s2'' \<mapsto>
        \<lparr>name = ''Prime'', cost = Finite 1499, cycle = ''yearly'', createdAt = 2000\<rparr>) \<and>
   form_is_default (ui (handleSubmit adding_world 2000 ''s2'' Resolves)) \<and>
   store (handleSubmit editing_world 2000 ''s2'' Rejects) = store editing_world \<and>
   formCost (ui (handleSubmit editing_world 2000 ''s2'' Rejects)) = Text ''649'' \<and>
   editingId (ui (handleSubmit editing_world 2000 ''s2'' Rejects)) = Some ''s1''"
proof -
  have e: "formName (ui editing_world) = ''Netflix''"
    "formCost (ui editing_world) = Text ''649''"
    "formCycle (ui editing_world) = ''monthly''" "editingId (ui editing_world) = Some ''s1''"
    "store editing_world ''s1'' = Some netflix_doc"
    by (simp_all add: editing_world_def idle_world_def)
  have a: "formName (ui adding_world) = ''Prime''" "formCost (ui adding_world) = Text ''1499''"
    "formCycle (ui adding_world) = ''yearly''" "editingId (ui adding_world) = None"
    by (simp_all add: adding_world_def idle_world_def initial_state_def)
  have he: "formName (ui editing_world) \<noteq> []" "truthy_value (formCost (ui editing_world))"
    by (simp_all add: e)
  have ha: "formName (ui adding_world) \<noteq> []" "truthy_value (formCost (ui adding_world))"
    by (simp_all add: a)
  from handleSubmit_valid [OF he, of 2000 "''s2''" Resolves]
    handleSubmit_valid [OF ha, of 2000 "''s2''" Resolves]
    handleSubmit_valid [OF he, of 2000 "''s2''" Rejects] he
  show ?thesis
    by (simp add: e a Let_def parseFloat_649 parseFloat_1499 del: parseFloat.simps)
qed

text \<open>
  A record whose cost is the number 0 is put into the form by \<^verbatim>\<open>startEdit\<close> as that
  number, which is falsy: submitting the form as it stands is refused by the validation.
\<close>

lemma handleSubmit_zero_cost_refused:
  assumes "cost sub = Finite 0"
  shows "handleSubmit (startEdit w sub) now newId outcome =
           (startEdit w sub)\<lparr>ui := (ui (startEdit w sub))
              \<lparr>error := ''Please fill in both the name and cost.''\<rparr>\<rparr>"
  using assms by (simp add: handleSubmit_def startEdit_def Let_def)

text \<open>
  C8: starting an edit copies the name, the cost and the cycle of the record into the form
  and makes its identifier the edit target; cancelling afterwards gives the world before
  the edit with the form at its defaults (empty name, empty cost, cycle \<^verbatim>\<open>monthly\<close>) and
  no edit target. Neither step changes the document store or the list of subscriptions.
\<close>

theorem startEdit_then_cancel:
  "formName (ui (startEdit w sub)) = name sub \<and>
   formCost (ui (startEdit w sub)) = Numeric (cost sub) \<and>
   formCycle (ui (startEdit w sub)) = cycle sub \<and>
   editingId (ui (startEdit w sub)) = Some (sub_id sub) \<and>
   store (startEdit w sub) = store w \<and>
   cancelEdit (startEdit w sub) =
     w\<lparr>ui := (ui w)\<lparr>formName := [], formCost := Text [], formCycle := ''monthly'',
                      editingId := None\<rparr>\<rparr> \<and>
   form_is_default (ui (cancelEdit (startEdit w sub))) \<and>
   store (cancelEdit (startEdit w sub)) = store w \<and>
   subscriptions (ui (cancelEdit (startEdit w sub))) = subscriptions (ui w)"
  by (simp add: startEdit_def cancelEdit_def form_is_default_def)

section \<open>Properties of the report\<close>

lemma report_failed_start:
  "report_failed (report_start w) =
     w\<lparr>ui := (ui w)\<lparr>loading := False,
                      error := ''Failed to generate report. Please try again later.'',
                      message := [], geminiResponse := None\<rparr>\<rparr>"
  by (simp add: report_failed_def report_start_def)

lemma no_candidates_no_text:
  "get_property r (Prop ''candidates'') = None \<Longrightarrow> response_text r = None"
  by (simp add: response_text_def opt_chain_def)

text \<open>
  C5: when the response is not a success (its status is outside 200 to 299), or its body
  has no value at \<^verbatim>\<open>candidates[0].content.parts[0].text\<close>, the failure message is set and
  no report text is stored. A response with status 200 whose body has no \<^verbatim>\<open>candidates\<close>
  leaves the same world as a response that is an HTTP failure.
\<close>

theorem report_failure:
  assumes "\<not> response_ok status \<or> (\<exists>r. body = Some r \<and> response_text r = None)"
  shows "error (ui (generateGeminiReport w (Response status body))) =
           ''Failed to generate report. Please try again later.'' \<and>
         geminiResponse (ui (generateGeminiReport w (Response status body))) = None \<and>
         (\<forall>r b. get_property r (Prop ''candidates'') = None \<longrightarrow>
            generateGeminiReport w (Response 200 (Some r)) =
            generateGeminiReport w (Response 500 b))"
proof -
  have failed: "generateGeminiReport w (Response status body) = report_failed (report_start w)"
    using assms by (auto simp: generateGeminiReport_def report_finish_def)
  have same: "generateGeminiReport w (Response 200 (Some r)) =
      generateGeminiReport w (Response 500 b)"
    if "get_property r (Prop ''candidates'') = None" for r b
    using no_candidates_no_text [OF that]
    by (simp add: generateGeminiReport_def report_finish_def response_ok_def)
  show ?thesis
    using same by (simp add: failed report_failed_start)
qed

theorem report_failure_witness:
  "response_ok 200 \<and> response_text blocked_body = None \<and>
   error (ui (generateGeminiReport reported_world (Response 200 (Some blocked_body)))) =
     ''Failed to generate report. Please try again later.'' \<and>
   geminiResponse (ui (generateGeminiReport reported_world (Response 200 (Some blocked_body)))) =
     None \<and>
   get_property blocked_body (Prop ''candidates'') = None \<and>
   generateGeminiReport reported_world (Response 200 (Some blocked_body)) =
     generateGeminiReport reported_world (Response 500 None)"
proof -
  have c: "get_property blocked_body (Prop ''candidates'') = None"
    by (simp add: blocked_body_def)
  have t: "response_text blocked_body = None"
    by (simp add: response_text_def opt_chain_def c)
  have h: "\<not> response_ok 200 \<or> (\<exists>r. Some blocked_body = Some r \<and> response_text r = None)"
    by (simp add: t)
  have ok: "response_ok 200"
    by (simp add: response_ok_def)
  from report_failure [OF h, of reported_world] ok t c
  show ?thesis by simp
qed

text \<open>
  C10: the handler is the four setters followed by the request and its handling; after
  the setters, before the request, no report text and no message are stored. Hence when
  the invocation fails (an error is set at its end), no report text is stored, whatever
  was stored before.
\<close>

theorem report_clears_first:
  "generateGeminiReport w answer = report_finish (report_start w) answer \<and>
   geminiResponse (ui (report_start w)) = None \<and>
   message (ui (report_start w)) = [] \<and>
   error (ui (report_start w)) = [] \<and>
   (error (ui (generateGeminiReport w answer)) \<noteq> [] \<longrightarrow>
      geminiResponse (ui (generateGeminiReport w answer)) = None)"
  by (simp add: generateGeminiReport_def report_finish_def report_start_def report_failed_def
      split: fetch_result.splits option.splits)

theorem report_clears_first_witness:
  "geminiResponse (ui reported_world) = Some (JString ''You spend little.'') \<and>
   error (ui (generateGeminiReport reported_world (Response 500 None))) \<noteq> [] \<and>
   geminiResponse (ui (generateGeminiReport reported_world (Response 500 None))) = None \<and>
   geminiResponse (ui (generateGeminiReport reported_world (Response 200 (Some good_body)))) =
     Some (JString ''Cancel one.'')"
proof -
  have e: "error (ui (generateGeminiReport reported_world (Response 500 None))) \<noteq> []"
    by (simp add: generateGeminiReport_def report_finish_def report_failed_def response_ok_def)
  have g: "response_text good_body = Some (JString ''Cancel one.'')"
    by (simp add: response_text_def opt_chain_def good_body_def)
  from report_clears_first [of reported_world "Response 500 None"] e
  show ?thesis
    by (simp add: g generateGeminiReport_def report_finish_def report_start_def
        response_ok_def reported_world_def)
qed

end
